theory Spec2Isabelle
  imports Main "HOL-Library.Word"
begin

section \<open>Data model of the Ethereum dual node\<close>

text \<open>
  The development embeds the Ethereum side of the dual node (package \<open>eth\<close>): the release
  transaction builder \<open>CreateEthReleaseAmountTx\<close> of \<open>dualnode/eth/utils.go\<close> and the
  methods of the \<open>Eth\<close> struct (\<open>SubmitTx\<close>, \<open>ComputeTxMetadata\<close>, \<open>submitEthReleaseTx\<close>,
  \<open>syncHead\<close>, \<open>handleBlock\<close>, \<open>extractEthTxSummary\<close>, \<open>callKardiaMasterGetEthToSend\<close>).

  Addresses are 20 bytes and hashes 32 bytes, \<open>big.Int\<close> is \<open>int\<close>, \<open>uint64\<close> is a 64-bit
  word, a Go pointer that may be \<open>nil\<close> is an \<open>option\<close>, and a Go \<open>error\<close> result is an
  \<open>error option\<close> (\<open>None\<close> is \<open>nil\<close>).
\<close>

type_synonym byte = "8 word"
type_synonym Address = "160 word"
type_synonym Hash = "256 word"

datatype error = NonceZeroFromContract | ErrAddEthTx | ExternalError string

text \<open>A call either returns or panics; the panic carries its message.\<close>

datatype 'a outcome = Returns 'a | Panics string

text \<open>The chain tags of package \<open>types\<close>; only \<open>ETHEREUM\<close> is used by this node.\<close>

datatype BlockchainSymbol = KARDIA | ETHEREUM

text \<open>An Ethereum transaction (\<open>ethTypes.Transaction\<close>) as far as the node reads it.\<close>

record Transaction =
  tx_To :: "Address option"
  tx_Data :: "byte list"
  tx_Value :: int
  tx_Hash :: Hash

record Block =
  blk_Header :: nat
  blk_Transactions :: "Transaction list"

record ChainHeadEvent =
  che_Block :: "Block option"

text \<open>An account state database: the node only reads nonces from it.\<close>

record StateDB =
  GetNonce :: "Address \<Rightarrow> 64 word"

record EventSummary =
  TxMethod :: string
  TxValue :: int

record EventData =
  ed_TxHash :: Hash
  ed_TxSource :: BlockchainSymbol
  ed_FromExternal :: bool
  ed_Data :: EventSummary

record TxMetadata =
  md_TxHash :: Hash
  md_Target :: BlockchainSymbol

record DualEvent =
  Nonce :: "64 word"
  TriggeredEvent :: EventData
  PendingTxMetadata :: "TxMetadata option"

text \<open>
  Modelled from the spec: \<open>types.NewDualEvent\<close> is not among the sources. The spec's data
  model gives the Cross-Chain Event as nonce, external flag, source chain, source
  transaction hash and summary, with the optional destination metadata unset at creation.
\<close>

definition NewDualEvent ::
  "64 word \<Rightarrow> bool \<Rightarrow> BlockchainSymbol \<Rightarrow> Hash \<Rightarrow> EventSummary \<Rightarrow> DualEvent" where
  "NewDualEvent nonce fromExternal source txHash summary =
     \<lparr>Nonce = nonce,
      TriggeredEvent = \<lparr>ed_TxHash = txHash, ed_TxSource = source,
                        ed_FromExternal = fromExternal, ed_Data = summary\<rparr>,
      PendingTxMetadata = None\<rparr>"

text \<open>
  Everything the node does to the outside is recorded, in program order, as a trace:
  log records (by level and message) and the calls to the three pools with their argument.
\<close>

datatype 'ktx effect =
    LogInfo string
  | LogError string
  | EthTxPoolAddLocal "Transaction option"
  | KaiTxPoolAddLocal 'ktx
  | EventPoolAddEvent DualEvent

text \<open>The contract-interface collaborator \<open>ethsmc.EthSmc\<close>.\<close>

record EthSmc =
  InputMethodName :: "byte list \<Rightarrow> error + string"
  CreateEthReleaseTx :: "string \<Rightarrow> int \<Rightarrow> string \<Rightarrow> 64 word \<Rightarrow> Transaction"

record EthConfig =
  ContractAddress :: Address
  LightNode :: bool

text \<open>
  The \<open>Eth\<close> struct. The collaborators it calls are fields: the three chain state
  accessors, the three pools, the contract-interface descriptors and the Kardia helpers.
  \<open>'w\<close> is the state of the outside world, which the pools may change; \<open>'ktx\<close> is the type of
  Kardia transactions. The constants of packages \<open>dev\<close>, \<open>ethsmc\<close> and \<open>dualbc\<close> that the
  methods use are fields as well, already converted from their hexadecimal form.
  \<open>smcContractAddr\<close> and \<open>receiveAddr\<close> are the two string arguments of
  \<open>CreateEthReleaseAmountTx\<close> that the callers in this package do not yet pass.
\<close>

record ('w, 'ktx) Eth =
  config :: EthConfig
  ethSmc :: EthSmc
  internalChain :: "(EventData \<Rightarrow> 'w \<Rightarrow> TxMetadata option) option"
  dualChain_State :: "'w \<Rightarrow> error + StateDB"
  kardiaChain_State :: "'w \<Rightarrow> error + StateDB"
  ethBlockChain_State :: "'w \<Rightarrow> error + StateDB"
  eventPool_AddEvent :: "DualEvent \<Rightarrow> 'w \<Rightarrow> error option \<times> 'w"
  txPool_AddLocal :: "'ktx \<Rightarrow> 'w \<Rightarrow> error option \<times> 'w"
  ethTxPool_AddLocal :: "Transaction option \<Rightarrow> 'w \<Rightarrow> error option \<times> 'w"
  smcABI_Pack :: "string \<Rightarrow> error + byte list"
  smcAddress :: Address
  CallStaticKardiaMasterSmc ::
    "Address \<Rightarrow> Address \<Rightarrow> 'w \<Rightarrow> byte list \<Rightarrow> StateDB \<Rightarrow> error + byte list"
  CreateKardiaRemoveAmountTx ::
    "byte list \<Rightarrow> StateDB \<Rightarrow> int \<Rightarrow> BlockchainSymbol \<Rightarrow> 'ktx"
  EthAccountSign :: Address
  smcContractAddr :: string
  receiveAddr :: string
  MockSmartContractCallSenderAccount :: Address
  GenesisAddrKey :: "byte list"
  DualStateAddress :: Address

section \<open>The release transaction builder (utils.go)\<close>

text \<open>
  \<open>CreateEthReleaseAmountTx\<close> returns the Go pair (transaction pointer, error) and logs once.
\<close>

definition CreateEthReleaseAmountTx ::
  "string \<Rightarrow> Address \<Rightarrow> string \<Rightarrow> StateDB \<Rightarrow> int \<Rightarrow> EthSmc
     \<Rightarrow> (Transaction option \<times> error option) \<times> 'ktx effect list" where
  "CreateEthReleaseAmountTx contractAddr recipientAddr recvAddr statedb quantity smc =
     (let nonce = GetNonce statedb recipientAddr in
      if nonce = 0 then
        ((None, Some NonceZeroFromContract),
         [LogError ''Eth state return 0 for nonce of contract address''])
      else
        (let tx = CreateEthReleaseTx smc contractAddr quantity recvAddr nonce in
         ((Some tx, None), [LogInfo ''Create Eth tx to release''])))"

section \<open>Outbound settlement\<close>

text \<open>
  \<open>submitEthReleaseTx\<close>. The callers in this package take the builder's result as one
  transaction pointer, so the model reads the pointer component of the pair. After the
  \<open>tx == nil\<close> check has logged, control continues to \<open>AddLocal(tx)\<close>; in the success branch
  \<open>tx.Hash()\<close> dereferences the pointer.
\<close>

definition submitEthReleaseTx ::
  "('w, 'ktx) Eth \<Rightarrow> int \<Rightarrow> 'w \<Rightarrow> unit outcome \<times> 'w \<times> 'ktx effect list" where
  "submitEthReleaseTx n val w =
     (case ethBlockChain_State n w of
        Inl err \<Rightarrow>
          (Returns (), w, [LogError ''Fail to get Ethereum state to create release tx''])
      | Inr statedb \<Rightarrow>
          (case CreateEthReleaseAmountTx (smcContractAddr n) (EthAccountSign n) (receiveAddr n)
                  statedb val (ethSmc n) of
             (res, l1) \<Rightarrow>
               (let tx = fst res;
                    l2 = (if tx = None then [LogError ''Fail to create Eth's tx''] else [])
                in case ethTxPool_AddLocal n tx w of
                     (Some err, w') \<Rightarrow>
                       (Returns (), w',
                        l1 @ l2 @ [EthTxPoolAddLocal tx, LogError ''Fail to add Ether tx''])
                   | (None, w') \<Rightarrow>
                       (case tx of
                          None \<Rightarrow>
                            (Panics ''invalid memory address or nil pointer dereference'', w',
                             l1 @ l2 @ [EthTxPoolAddLocal tx])
                        | Some t \<Rightarrow>
                            (Returns (), w',
                             l1 @ l2 @ [EthTxPoolAddLocal tx,
                                        LogInfo ''Add Eth release tx successfully''])))))"

text \<open>\<open>big.Int.SetBytes\<close>: the bytes read as a big-endian unsigned integer.\<close>

definition SetBytes :: "byte list \<Rightarrow> int" where
  "SetBytes bs = foldl (\<lambda>acc b. acc * 256 + uint b) 0 bs"

text \<open>
  \<open>callKardiaMasterGetEthToSend\<close> returns a \<open>*big.Int\<close>; both error paths return
  \<open>big.NewInt(0)\<close>.
\<close>

definition callKardiaMasterGetEthToSend ::
  "('w, 'ktx) Eth \<Rightarrow> Address \<Rightarrow> StateDB \<Rightarrow> 'w \<Rightarrow> int option \<times> 'ktx effect list" where
  "callKardiaMasterGetEthToSend n from statedb w =
     (case smcABI_Pack n ''getEthToSend'' of
        Inl err \<Rightarrow> (Some 0, [LogError ''Fail to pack Kardia smc getEthToSend''])
      | Inr getEthToSend \<Rightarrow>
          (case CallStaticKardiaMasterSmc n from (smcAddress n) w getEthToSend statedb of
             Inl err \<Rightarrow> (Some 0, [LogError ''Error calling master exchange contract''])
           | Inr ret \<Rightarrow> (Some (SetBytes ret), [])))"

text \<open>\<open>SubmitTx\<close>: the poll-triggered settlement. The event argument is not read.\<close>

definition SubmitTx ::
  "('w, 'ktx) Eth \<Rightarrow> EventData \<Rightarrow> 'w \<Rightarrow> error option outcome \<times> 'w \<times> 'ktx effect list" where
  "SubmitTx n event w =
     (case kardiaChain_State n w of
        Inl err \<Rightarrow> (Returns (Some err), w, [LogError ''Fail to get Kardia state''])
      | Inr statedb \<Rightarrow>
          (case callKardiaMasterGetEthToSend n (MockSmartContractCallSenderAccount n) statedb w of
             (ethSendValue, l1) \<Rightarrow>
               (let l2 = [LogInfo ''Kardia smc calls getEthToSend''] in
                case ethSendValue of
                  None \<Rightarrow> (Returns None, w, l1 @ l2)
                | Some v \<Rightarrow>
                    if v = 0 then (Returns None, w, l1 @ l2)
                    else
                      (case submitEthReleaseTx n v w of
                         (Panics msg, w1, l3) \<Rightarrow> (Panics msg, w1, l1 @ l2 @ l3)
                       | (Returns u, w1, l3) \<Rightarrow>
                           (let tx = CreateKardiaRemoveAmountTx n (GenesisAddrKey n) statedb v
                                        ETHEREUM
                            in case txPool_AddLocal n tx w1 of
                                 (Some err, w2) \<Rightarrow>
                                   (Returns None, w2,
                                    l1 @ l2 @ l3 @
                                    [KaiTxPoolAddLocal tx,
                                     LogError ''Fail to add Kardia tx to removeEth''])
                               | (None, w2) \<Rightarrow>
                                   (Returns None, w2,
                                    l1 @ l2 @ l3 @
                                    [KaiTxPoolAddLocal tx,
                                     LogInfo
                                       ''Submitted Eth's removeEth tx to its tx pool successfully'']))))))"

text \<open>
  \<open>ComputeTxMetadata\<close> builds the release transaction for the event's value and returns
  its hash; \<open>ethTx.Hash()\<close> dereferences the built pointer. It calls no pool, so the world
  is not threaded through it.
\<close>

definition ComputeTxMetadata ::
  "('w, 'ktx) Eth \<Rightarrow> EventData \<Rightarrow> 'w \<Rightarrow> TxMetadata option outcome \<times> 'ktx effect list" where
  "ComputeTxMetadata n event w =
     (case ethBlockChain_State n w of
        Inl err \<Rightarrow>
          (Returns None, [LogError ''Fail to get Ethereum state to create release tx''])
      | Inr statedb \<Rightarrow>
          (case CreateEthReleaseAmountTx (smcContractAddr n) (EthAccountSign n) (receiveAddr n)
                  statedb (TxValue (ed_Data event)) (ethSmc n) of
             (res, l1) \<Rightarrow>
               (case fst res of
                  None \<Rightarrow> (Panics ''invalid memory address or nil pointer dereference'', l1)
                | Some ethTx \<Rightarrow>
                    (Returns (Some \<lparr>md_TxHash = tx_Hash ethTx, md_Target = ETHEREUM\<rparr>), l1))))"

section \<open>Block classification and event assembly\<close>

definition extractEthTxSummary ::
  "('w, 'ktx) Eth \<Rightarrow> Transaction \<Rightarrow> (error + EventSummary) \<times> 'ktx effect list" where
  "extractEthTxSummary n tx =
     (let input = tx_Data tx in
      case InputMethodName (ethSmc n) input of
        Inl err \<Rightarrow> (Inl err, [LogError ''Error when unpack Eth smc input''])
      | Inr method \<Rightarrow> (Inr \<lparr>TxMethod = method, TxValue = tx_Value tx\<rparr>, []))"

text \<open>
  The loop of \<open>handleBlock\<close> over \<open>block.Transactions()\<close>. \<open>ic\<close> is the registered internal
  chain adapter, which \<open>handleBlock\<close> has checked before the loop. A decode failure panics;
  a failed state read and a refused event both leave \<open>handleBlock\<close> by \<open>return\<close>.
\<close>

fun handleBlock_loop ::
  "('w, 'ktx) Eth \<Rightarrow> (EventData \<Rightarrow> 'w \<Rightarrow> TxMetadata option) \<Rightarrow> Address \<Rightarrow> Transaction list
     \<Rightarrow> 'w \<Rightarrow> unit outcome \<times> 'w \<times> 'ktx effect list" where
  "handleBlock_loop n ic contractAddr [] w = (Returns (), w, [])"
| "handleBlock_loop n ic contractAddr (tx # txs) w =
     (if tx_To tx \<noteq> None \<and> the (tx_To tx) = contractAddr then
        (let l0 = [LogInfo ''New Eth's tx detected on smart contract''] in
         case extractEthTxSummary n tx of
           (Inl err, l1) \<Rightarrow>
             (Panics ''Not yet implemented!'', w,
              l0 @ l1 @ [LogError ''Error when extracting Eth's tx summary.''])
         | (Inr eventSummary, l1) \<Rightarrow>
             (case dualChain_State n w of
                Inl err \<Rightarrow> (Returns (), w, l0 @ l1 @ [LogError ''Fail to get Kardia state''])
              | Inr dualStateDB \<Rightarrow>
                  (let nonce = GetNonce dualStateDB (DualStateAddress n);
                       txHash = tx_Hash tx;
                       dualEvent0 = NewDualEvent nonce True ETHEREUM txHash eventSummary;
                       dualEvent = dualEvent0
                         \<lparr>PendingTxMetadata := ic (TriggeredEvent dualEvent0) w\<rparr>;
                       l2 = [LogInfo ''Create DualEvent for Eth's Tx'']
                   in case eventPool_AddEvent n dualEvent w of
                        (Some err, w') \<Rightarrow>
                          (Returns (), w',
                           l0 @ l1 @ l2 @
                           [EventPoolAddEvent dualEvent, LogError ''Fail to add dual's event''])
                      | (None, w') \<Rightarrow>
                          (case handleBlock_loop n ic contractAddr txs w' of
                             (r, w'', l3) \<Rightarrow>
                               (r, w'',
                                l0 @ l1 @ l2 @
                                [EventPoolAddEvent dualEvent,
                                 LogInfo ''Submitted Eth's DualEvent to event pool successfully'']
                                @ l3)))))
      else handleBlock_loop n ic contractAddr txs w)"

text \<open>\<open>handleBlock\<close>: the adapter check comes first, then the nil-block check.\<close>

definition handleBlock ::
  "('w, 'ktx) Eth \<Rightarrow> Block option \<Rightarrow> 'w \<Rightarrow> unit outcome \<times> 'w \<times> 'ktx effect list" where
  "handleBlock n block w =
     (case internalChain n of
        None \<Rightarrow> (Panics ''Internal chain needs not to be nil.'', w, [])
      | Some ic \<Rightarrow>
          (case block of
             None \<Rightarrow> (Returns (), w, [LogInfo ''handleBlock with nil block''])
           | Some b \<Rightarrow>
               (let txns = blk_Transactions b;
                    l0 = [LogInfo ''handleBlock...''];
                    contractAddr = ContractAddress (config n)
                in case handleBlock_loop n ic contractAddr (blk_Transactions b) w of
                     (r, w', l) \<Rightarrow> (r, w', l0 @ l))))"

text \<open>\<open>RegisterInternalChain\<close> stores the adapter in the node.\<close>

definition RegisterInternalChain ::
  "('w, 'ktx) Eth \<Rightarrow> (EventData \<Rightarrow> 'w \<Rightarrow> TxMetadata option) \<Rightarrow> ('w, 'ktx) Eth" where
  "RegisterInternalChain n ic = n\<lparr>internalChain := Some ic\<rparr>"

text \<open>The events handed to the Event Pool in a trace, in order.\<close>

fun eventPoolCalls :: "'ktx effect list \<Rightarrow> DualEvent list" where
  "eventPoolCalls [] = []"
| "eventPoolCalls (EventPoolAddEvent ev # es) = ev # eventPoolCalls es"
| "eventPoolCalls (e # es) = eventPoolCalls es"

text \<open>The messages of the error log records of a trace, in order.\<close>

fun errorLogs :: "'ktx effect list \<Rightarrow> string list" where
  "errorLogs [] = []"
| "errorLogs (LogError m # es) = m # errorLogs es"
| "errorLogs (e # es) = errorLogs es"

section \<open>Head tracker\<close>

text \<open>
  A buffered Go channel is the list of the values it holds, oldest first. A send succeeds
  when there is room and otherwise blocks (\<open>None\<close>); a receive takes the oldest value and
  blocks on an empty channel.
\<close>

definition chan_send :: "nat \<Rightarrow> 'a \<Rightarrow> 'a list \<Rightarrow> 'a list option" where
  "chan_send cap v ch = (if length ch < cap then Some (ch @ [v]) else None)"

definition chan_recv :: "'a list \<Rightarrow> ('a \<times> 'a list) option" where
  "chan_recv ch = (case ch of [] \<Rightarrow> None | v # rest \<Rightarrow> Some (v, rest))"

text \<open>
  The listener goroutine of \<open>syncHead\<close> on one head event: a \<open>select\<close> with the send into
  \<open>blockCh\<close> (capacity 1) and an empty \<open>default\<close>. The result is the new content of
  \<open>blockCh\<close>, or \<open>None\<close> if the statement blocked.
\<close>

definition listener_on_head :: "ChainHeadEvent \<Rightarrow> Block option list \<Rightarrow> Block option list option" where
  "listener_on_head head blockCh =
     (case chan_send 1 (che_Block head) blockCh of
        Some ch' \<Rightarrow> Some ch'
      | None \<Rightarrow> Some blockCh)"

text \<open>
  The three activities around \<open>blockCh\<close>, interleaved by a schedule: the listener takes
  a head event from the subscription channel, the mock generator sends a block (a
  blocking send: it waits while the buffer is full, so a step that finds no room changes
  nothing), and the handler loop receives a block (waiting on an empty buffer) and
  dispatches it to \<open>handleBlock\<close> unless the node is a light node. \<open>dispatched\<close> lists the
  blocks given to \<open>handleBlock\<close>, in the order of their receipt.
\<close>

datatype sched = Notify ChainHeadEvent | Generate Block | Drain

record tracker =
  blockCh :: "Block option list"
  dispatched :: "Block option list"

fun syncHead_step :: "bool \<Rightarrow> tracker \<Rightarrow> sched \<Rightarrow> tracker" where
  "syncHead_step lightNode t (Notify head) =
     (case listener_on_head head (blockCh t) of
        Some ch' \<Rightarrow> t\<lparr>blockCh := ch'\<rparr>
      | None \<Rightarrow> t)"
| "syncHead_step lightNode t (Generate b) =
     (case chan_send 1 (Some b) (blockCh t) of
        Some ch' \<Rightarrow> t\<lparr>blockCh := ch'\<rparr>
      | None \<Rightarrow> t)"
| "syncHead_step lightNode t Drain =
     (case chan_recv (blockCh t) of
        None \<Rightarrow> t
      | Some (block, rest) \<Rightarrow>
          t\<lparr>blockCh := rest,
            dispatched := (if lightNode then dispatched t else dispatched t @ [block])\<rparr>)"

definition syncHead_run :: "bool \<Rightarrow> sched list \<Rightarrow> tracker \<Rightarrow> tracker" where
  "syncHead_run lightNode s t = foldl (syncHead_step lightNode) t s"

definition tracker_init :: tracker where
  "tracker_init = \<lparr>blockCh = [], dispatched = []\<rparr>"

section \<open>The pool calls of a trace and a sample node\<close>

text \<open>The calls to the three pools in a trace, in order, without the log records.\<close>

fun submissions :: "'ktx effect list \<Rightarrow> 'ktx effect list" where
  "submissions [] = []"
| "submissions (LogInfo m # es) = submissions es"
| "submissions (LogError m # es) = submissions es"
| "submissions (e # es) = e # submissions es"

text \<open>
  A sample node for the concrete instances below. The world has no state, every pool
  accepts, every state read succeeds (Ethereum nonce 7, dual nonce 3), the contract
  interface decodes every non-empty input as \<open>deposit\<close>, and the pending amount read from the
  master contract is the two bytes \<open>01 F4\<close>, that is 500. A Kardia transaction is
  represented by its amount.
\<close>

definition sample_smc :: EthSmc where
  "sample_smc =
     \<lparr>InputMethodName =
        (\<lambda>input. if input = [] then Inl (ExternalError ''no method'') else Inr ''deposit''),
      CreateEthReleaseTx =
        (\<lambda>c q r nonce. \<lparr>tx_To = Some 2, tx_Data = [], tx_Value = q, tx_Hash = ucast nonce\<rparr>)\<rparr>"

definition sample_state :: "64 word \<Rightarrow> StateDB" where
  "sample_state k = \<lparr>GetNonce = (\<lambda>a. k)\<rparr>"

definition sample_eth :: "(unit, int) Eth" where
  "sample_eth =
     \<lparr>config = \<lparr>ContractAddress = 1, LightNode = False\<rparr>,
      ethSmc = sample_smc,
      internalChain = Some (\<lambda>ev w. None),
      dualChain_State = (\<lambda>w. Inr (sample_state 3)),
      kardiaChain_State = (\<lambda>w. Inr (sample_state 5)),
      ethBlockChain_State = (\<lambda>w. Inr (sample_state 7)),
      eventPool_AddEvent = (\<lambda>ev w. (None, w)),
      txPool_AddLocal = (\<lambda>tx w. (None, w)),
      ethTxPool_AddLocal = (\<lambda>tx w. (None, w)),
      smcABI_Pack = (\<lambda>m. Inr [1]),
      smcAddress = 9,
      CallStaticKardiaMasterSmc = (\<lambda>from to w input sdb. Inr [1, 244]),
      CreateKardiaRemoveAmountTx = (\<lambda>key sdb v c. v),
      EthAccountSign = 4,
      smcContractAddr = ''c0'',
      receiveAddr = ''a0'',
      MockSmartContractCallSenderAccount = 6,
      GenesisAddrKey = [],
      DualStateAddress = 8\<rparr>"

definition sample_event :: EventData where
  "sample_event =
     \<lparr>ed_TxHash = 0, ed_TxSource = ETHEREUM, ed_FromExternal = True,
      ed_Data = \<lparr>TxMethod = ''deposit'', TxValue = 1000\<rparr>\<rparr>"

text \<open>A transaction to address \<open>to\<close> with call input \<open>input\<close>, value \<open>v\<close> and hash \<open>h\<close>.\<close>

definition sample_tx :: "Address \<Rightarrow> byte list \<Rightarrow> int \<Rightarrow> Hash \<Rightarrow> Transaction" where
  "sample_tx to input v h = \<lparr>tx_To = Some to, tx_Data = input, tx_Value = v, tx_Hash = h\<rparr>"

text \<open>
  An event carries the summary of a transaction when its method is the decoded method
  name of the transaction's call input, its value is the transaction's native value, and
  it is marked external with the transaction's hash.
\<close>

definition carries_summary :: "('w, 'ktx) Eth \<Rightarrow> Transaction \<Rightarrow> DualEvent \<Rightarrow> bool" where
  "carries_summary n tx ev =
     (InputMethodName (ethSmc n) (tx_Data tx) = Inr (TxMethod (ed_Data (TriggeredEvent ev))) \<and>
      TxValue (ed_Data (TriggeredEvent ev)) = tx_Value tx \<and>
      ed_TxHash (TriggeredEvent ev) = tx_Hash tx \<and>
      ed_FromExternal (TriggeredEvent ev))"

text \<open>The transactions of a list that are addressed to \<open>a\<close>, in order.\<close>

definition addressed_to :: "Address \<Rightarrow> Transaction list \<Rightarrow> Transaction list" where
  "addressed_to a txs = filter (\<lambda>tx. tx_To tx = Some a) txs"

text \<open>
  The event that the loop of \<open>handleBlock\<close> assembles for a transaction whose input decodes
  to method \<open>m\<close>, from the dual state \<open>sdb\<close> read in world \<open>w\<close>: the new event with the
  adapter's metadata attached.
\<close>

definition assembled ::
  "('w, 'ktx) Eth \<Rightarrow> (EventData \<Rightarrow> 'w \<Rightarrow> TxMetadata option) \<Rightarrow> Transaction \<Rightarrow> string \<Rightarrow> StateDB
     \<Rightarrow> 'w \<Rightarrow> DualEvent" where
  "assembled n ic tx m sdb w =
     (NewDualEvent (GetNonce sdb (DualStateAddress n)) True ETHEREUM (tx_Hash tx)
        \<lparr>TxMethod = m, TxValue = tx_Value tx\<rparr>)
     \<lparr>PendingTxMetadata :=
        ic (TriggeredEvent (NewDualEvent (GetNonce sdb (DualStateAddress n)) True ETHEREUM
              (tx_Hash tx) \<lparr>TxMethod = m, TxValue = tx_Value tx\<rparr>)) w\<rparr>"

text \<open>
  A sample block: two transactions to the bridge contract (address 1) around one to
  another address. And a sample node whose event pool refuses the events of value 1000.
\<close>

definition sample_block :: Block where
  "sample_block =
     \<lparr>blk_Header = 1,
      blk_Transactions =
        [sample_tx 1 [1] 1000 11, sample_tx 5 [1] 3 12, sample_tx 1 [2] 20 13]\<rparr>"

definition sample_refusing :: "(unit, int) Eth" where
  "sample_refusing =
     sample_eth\<lparr>eventPool_AddEvent :=
       (\<lambda>ev w. if TxValue (ed_Data (TriggeredEvent ev)) = 1000
                then (Some (ExternalError ''duplicate nonce''), w) else (None, w))\<rparr>"

text \<open>A head event carrying the given block pointer.\<close>

definition sample_head :: "Block option \<Rightarrow> ChainHeadEvent" where
  "sample_head b = \<lparr>che_Block = b\<rparr>"

section \<open>Basic facts about traces, the builder and the release submission\<close>

lemma submissions_append: "submissions (xs @ ys) = submissions xs @ submissions ys"
  by (induction xs rule: submissions.induct) simp_all

lemma eventPoolCalls_append: "eventPoolCalls (xs @ ys) = eventPoolCalls xs @ eventPoolCalls ys"
  by (induction xs rule: eventPoolCalls.induct) simp_all

lemma errorLogs_append: "errorLogs (xs @ ys) = errorLogs xs @ errorLogs ys"
  by (induction xs rule: errorLogs.induct) simp_all

lemma build_zero:
  "GetNonce sdb r = 0 \<Longrightarrow>
     CreateEthReleaseAmountTx c r a sdb q smc =
       ((None, Some NonceZeroFromContract),
        [LogError ''Eth state return 0 for nonce of contract address''])"
  by (simp add: CreateEthReleaseAmountTx_def)

lemma build_nonzero:
  "GetNonce sdb r \<noteq> 0 \<Longrightarrow>
     CreateEthReleaseAmountTx c r a sdb q smc =
       ((Some (CreateEthReleaseTx smc c q a (GetNonce sdb r)), None),
        [LogInfo ''Create Eth tx to release''])"
  by (simp add: CreateEthReleaseAmountTx_def)

lemma submit_state_fail:
  "ethBlockChain_State n w = Inl e \<Longrightarrow>
     submitEthReleaseTx n v w =
       (Returns (), w, [LogError ''Fail to get Ethereum state to create release tx''])"
  by (simp add: submitEthReleaseTx_def)

lemma submit_nonzero:
  assumes "ethBlockChain_State n w = Inr sdb" and "GetNonce sdb (EthAccountSign n) \<noteq> 0"
  shows "fst (submitEthReleaseTx n v w) = Returns () \<and>
         fst (snd (submitEthReleaseTx n v w)) =
            snd (ethTxPool_AddLocal n (Some (CreateEthReleaseTx (ethSmc n) (smcContractAddr n) v
                   (receiveAddr n) (GetNonce sdb (EthAccountSign n)))) w) \<and>
         submissions (snd (snd (submitEthReleaseTx n v w))) =
           [EthTxPoolAddLocal (Some (CreateEthReleaseTx (ethSmc n) (smcContractAddr n) v
               (receiveAddr n) (GetNonce sdb (EthAccountSign n))))]"
  using assms
  by (auto simp add: submitEthReleaseTx_def build_nonzero Let_def
      split: prod.splits option.splits)

lemma submit_zero:
  assumes "ethBlockChain_State n w = Inr sdb" and "GetNonce sdb (EthAccountSign n) = 0"
  shows "submissions (snd (snd (submitEthReleaseTx n v w))) = [EthTxPoolAddLocal None]"
    and "fst (ethTxPool_AddLocal n None w) = None \<Longrightarrow>
           fst (submitEthReleaseTx n v w) =
             Panics ''invalid memory address or nil pointer dereference''"
  using assms
  by (auto simp add: submitEthReleaseTx_def build_zero Let_def split: prod.splits option.splits)

section \<open>Zero nonce of the signing account\<close>

text \<open>
  Claim C1. When the Ethereum state read succeeds and the nonce of the signing account
  reads as zero, the builder fails with \<open>NonceZeroFromContract\<close> and builds no transaction,
  for every amount. The claim continues that nothing is submitted to the Ethereum
  transaction pool. The code does otherwise: \<open>submitEthReleaseTx\<close> logs the failed build
  and then still calls \<open>AddLocal\<close> on the pool, with the nil transaction, because the
  \<open>tx == nil\<close> branch does not return. The theorem states what the code does: the one
  pool call of the trace is \<open>AddLocal(nil)\<close>.
\<close>

theorem C1_zero_nonce_release:
  assumes "ethBlockChain_State (n :: ('w, 'k) Eth) w = Inr sdb"
    and "GetNonce sdb (EthAccountSign n) = 0"
  shows "fst (CreateEthReleaseAmountTx (smcContractAddr n) (EthAccountSign n) (receiveAddr n)
                sdb v (ethSmc n) :: (Transaction option \<times> error option) \<times> 'k effect list)
           = (None, Some NonceZeroFromContract)
         \<and> submissions (snd (snd (submitEthReleaseTx n v w))) = [EthTxPoolAddLocal None]"
  using assms submit_zero(1)[OF assms] by (simp add: build_zero)

theorem C1_zero_nonce_release_witness:
  "fst (CreateEthReleaseAmountTx ''c0'' 4 ''a0'' (sample_state 0) 500 sample_smc
         :: (Transaction option \<times> error option) \<times> int effect list)
     = (None, Some NonceZeroFromContract) \<and>
   submissions (snd (snd (submitEthReleaseTx
        (sample_eth\<lparr>ethBlockChain_State := (\<lambda>w. Inr (sample_state 0))\<rparr>) 500 ())))
     = [EthTxPoolAddLocal None]"
  using C1_zero_nonce_release
    [of "sample_eth\<lparr>ethBlockChain_State := (\<lambda>w. Inr (sample_state 0))\<rparr>"
      "()" "sample_state 0" 500]
  by (simp add: sample_eth_def sample_state_def)

section \<open>The poll-triggered settlement cycle\<close>

lemma SubmitTx_zero:
  assumes "kardiaChain_State n w = Inr sdb"
    and "fst (callKardiaMasterGetEthToSend n (MockSmartContractCallSenderAccount n) sdb w) = Some 0"
  shows "fst (SubmitTx n ev w) = Returns None \<and> fst (snd (SubmitTx n ev w)) = w \<and>
         submissions (snd (snd (SubmitTx n ev w))) =
           submissions (snd (callKardiaMasterGetEthToSend n (MockSmartContractCallSenderAccount n) sdb w))"
  using assms
  by (auto simp add: SubmitTx_def Let_def submissions_append split: prod.splits)

lemma callKardia_no_submissions:
  "submissions (snd (callKardiaMasterGetEthToSend n a sdb w)) = []"
  by (simp add: callKardiaMasterGetEthToSend_def split: sum.splits)

lemma SubmitTx_nonzero:
  assumes "kardiaChain_State n w = Inr sdb"
    and "fst (callKardiaMasterGetEthToSend n (MockSmartContractCallSenderAccount n) sdb w) = Some v"
    and "v \<noteq> 0"
    and "fst (submitEthReleaseTx n v w) = Returns ()"
  shows "fst (SubmitTx n ev w) = Returns None \<and>
         submissions (snd (snd (SubmitTx n ev w))) =
           submissions (snd (snd (submitEthReleaseTx n v w))) @
           [KaiTxPoolAddLocal (CreateKardiaRemoveAmountTx n (GenesisAddrKey n) sdb v ETHEREUM)]"
  using assms callKardia_no_submissions[of n "MockSmartContractCallSenderAccount n" sdb w]
  by (auto simp add: SubmitTx_def Let_def submissions_append split: prod.splits option.splits outcome.splits)

text \<open>
  Claim C2, as the code has it. In a poll cycle whose Kardia state read succeeds and whose
  pending amount reads as \<open>v\<close>:
  \<^item> if \<open>v\<close> is zero, no pool is called;
  \<^item> if \<open>v\<close> is not zero, the Ethereum state read succeeds and the signing nonce is not
    zero, the pool calls of the cycle are exactly the release transaction built for \<open>v\<close>,
    handed to the Ethereum pool, followed by the debit transaction built for \<open>v\<close>, handed to
    the Kardia pool; neither pool's reply is assumed, so a refusal by one does not stop
    the other call;
  \<^item> if \<open>v\<close> is not zero and the Ethereum state read fails, the release is given up before
    any pool call and the debit for \<open>v\<close> is still submitted, alone.
  The claim as stated (one release for every non-zero \<open>v\<close>) fails in the third case: the
  state-read guard of \<open>submitEthReleaseTx\<close> returns first.
\<close>

theorem C2_poll_cycle:
  assumes "kardiaChain_State n w = Inr sdb"
    and "fst (callKardiaMasterGetEthToSend n (MockSmartContractCallSenderAccount n) sdb w) = Some v"
  shows "(v = 0 \<longrightarrow> submissions (snd (snd (SubmitTx n ev w))) = []) \<and>
         (v \<noteq> 0 \<longrightarrow>
            (\<forall>esdb. ethBlockChain_State n w = Inr esdb \<and> GetNonce esdb (EthAccountSign n) \<noteq> 0 \<longrightarrow>
               submissions (snd (snd (SubmitTx n ev w))) =
                 [EthTxPoolAddLocal (Some (CreateEthReleaseTx (ethSmc n) (smcContractAddr n) v
                     (receiveAddr n) (GetNonce esdb (EthAccountSign n)))),
                  KaiTxPoolAddLocal
                    (CreateKardiaRemoveAmountTx n (GenesisAddrKey n) sdb v ETHEREUM)]) \<and>
            (\<forall>e. ethBlockChain_State n w = Inl e \<longrightarrow>
               submissions (snd (snd (SubmitTx n ev w))) =
                 [KaiTxPoolAddLocal
                    (CreateKardiaRemoveAmountTx n (GenesisAddrKey n) sdb v ETHEREUM)]))"
proof (intro conjI impI allI)
  assume "v = 0"
  with assms show "submissions (snd (snd (SubmitTx n ev w))) = []"
    using SubmitTx_zero[of n w sdb ev] callKardia_no_submissions[of n _ sdb w] by simp
next
  fix esdb
  assume v: "v \<noteq> 0"
    and st: "ethBlockChain_State n w = Inr esdb \<and> GetNonce esdb (EthAccountSign n) \<noteq> 0"
  from st have r: "fst (submitEthReleaseTx n v w) = Returns ()"
    and s: "submissions (snd (snd (submitEthReleaseTx n v w))) =
           [EthTxPoolAddLocal (Some (CreateEthReleaseTx (ethSmc n) (smcContractAddr n) v
               (receiveAddr n) (GetNonce esdb (EthAccountSign n))))]"
    using submit_nonzero[of n w esdb v] by simp_all
  show "submissions (snd (snd (SubmitTx n ev w))) =
      [EthTxPoolAddLocal (Some (CreateEthReleaseTx (ethSmc n) (smcContractAddr n) v
          (receiveAddr n) (GetNonce esdb (EthAccountSign n)))),
       KaiTxPoolAddLocal (CreateKardiaRemoveAmountTx n (GenesisAddrKey n) sdb v ETHEREUM)]"
    using SubmitTx_nonzero[OF assms v r, of ev] s by simp
next
  fix e
  assume v: "v \<noteq> 0" and st: "ethBlockChain_State n w = Inl e"
  have r: "fst (submitEthReleaseTx n v w) = Returns ()"
    and s: "submissions (snd (snd (submitEthReleaseTx n v w))) = []"
    using submit_state_fail[OF st, of v] by simp_all
  show "submissions (snd (snd (SubmitTx n ev w))) =
      [KaiTxPoolAddLocal (CreateKardiaRemoveAmountTx n (GenesisAddrKey n) sdb v ETHEREUM)]"
    using SubmitTx_nonzero[OF assms v r, of ev] s by simp
qed

theorem C2_poll_cycle_witness:
  "submissions (snd (snd (SubmitTx sample_eth sample_event ()))) =
     [EthTxPoolAddLocal (Some \<lparr>tx_To = Some 2, tx_Data = [], tx_Value = 500, tx_Hash = 7\<rparr>),
      KaiTxPoolAddLocal 500]"
proof -
  have k: "kardiaChain_State sample_eth () = Inr (sample_state 5)"
    by (simp add: sample_eth_def)
  have p: "fst (callKardiaMasterGetEthToSend sample_eth
             (MockSmartContractCallSenderAccount sample_eth) (sample_state 5) ()) = Some 500"
    by (simp add: callKardiaMasterGetEthToSend_def sample_eth_def SetBytes_def)
  have e: "ethBlockChain_State sample_eth () = Inr (sample_state 7) \<and>
           GetNonce (sample_state 7) (EthAccountSign sample_eth) \<noteq> 0"
    by (simp add: sample_eth_def sample_state_def)
  from C2_poll_cycle[OF k p, of sample_event] e show ?thesis
    by (simp add: sample_eth_def sample_state_def sample_smc_def)
qed

text \<open>
  The sample node with an unreadable Ethereum state: the pending amount reads 500, the
  debit for 500 is submitted and no release is.
\<close>

theorem C2_release_skipped_counterexample:
  "fst (callKardiaMasterGetEthToSend
          (sample_eth\<lparr>ethBlockChain_State := (\<lambda>w. Inl (ExternalError ''state unavailable''))\<rparr>)
          6 (sample_state 5) ()) = Some 500 \<and>
   submissions (snd (snd (SubmitTx
          (sample_eth\<lparr>ethBlockChain_State := (\<lambda>w. Inl (ExternalError ''state unavailable''))\<rparr>)
          sample_event ()))) = [KaiTxPoolAddLocal 500]"
  by (simp add: SubmitTx_def submitEthReleaseTx_def callKardiaMasterGetEthToSend_def
      sample_eth_def SetBytes_def Let_def)

section \<open>The transaction loop of handleBlock\<close>

text \<open>One iteration of the loop, by the way it ends.\<close>

lemma loop_skip:
  "tx_To tx \<noteq> Some a \<Longrightarrow> handleBlock_loop n ic a (tx # txs) w = handleBlock_loop n ic a txs w"
  by (cases "tx_To tx") auto

lemma loop_decode_fail:
  "tx_To tx = Some a \<Longrightarrow> InputMethodName (ethSmc n) (tx_Data tx) = Inl e \<Longrightarrow>
     handleBlock_loop n ic a (tx # txs) w =
       (Panics ''Not yet implemented!'', w,
        [LogInfo ''New Eth's tx detected on smart contract'',
         LogError ''Error when unpack Eth smc input'',
         LogError ''Error when extracting Eth's tx summary.''])"
  by (simp add: extractEthTxSummary_def)

lemma loop_state_fail:
  "tx_To tx = Some a \<Longrightarrow> InputMethodName (ethSmc n) (tx_Data tx) = Inr m \<Longrightarrow>
   dualChain_State n w = Inl e \<Longrightarrow>
     handleBlock_loop n ic a (tx # txs) w =
       (Returns (), w,
        [LogInfo ''New Eth's tx detected on smart contract'',
         LogError ''Fail to get Kardia state''])"
  by (simp add: extractEthTxSummary_def)

lemma loop_rejected:
  "tx_To tx = Some a \<Longrightarrow> InputMethodName (ethSmc n) (tx_Data tx) = Inr m \<Longrightarrow>
   dualChain_State n w = Inr sdb \<Longrightarrow>
   eventPool_AddEvent n (assembled n ic tx m sdb w) w = (Some e, w') \<Longrightarrow>
     handleBlock_loop n ic a (tx # txs) w =
       (Returns (), w',
        [LogInfo ''New Eth's tx detected on smart contract'',
         LogInfo ''Create DualEvent for Eth's Tx'',
         EventPoolAddEvent (assembled n ic tx m sdb w),
         LogError ''Fail to add dual's event''])"
  by (simp add: extractEthTxSummary_def assembled_def Let_def)

lemma loop_accepted:
  "tx_To tx = Some a \<Longrightarrow> InputMethodName (ethSmc n) (tx_Data tx) = Inr m \<Longrightarrow>
   dualChain_State n w = Inr sdb \<Longrightarrow>
   eventPool_AddEvent n (assembled n ic tx m sdb w) w = (None, w') \<Longrightarrow>
     handleBlock_loop n ic a (tx # txs) w =
       (fst (handleBlock_loop n ic a txs w'), fst (snd (handleBlock_loop n ic a txs w')),
        [LogInfo ''New Eth's tx detected on smart contract'',
         LogInfo ''Create DualEvent for Eth's Tx'',
         EventPoolAddEvent (assembled n ic tx m sdb w),
         LogInfo ''Submitted Eth's DualEvent to event pool successfully'']
        @ snd (snd (handleBlock_loop n ic a txs w')))"
  by (simp add: extractEthTxSummary_def assembled_def Let_def split: prod.splits)

lemma assembled_carries:
  "InputMethodName (ethSmc n) (tx_Data tx) = Inr m \<Longrightarrow>
     carries_summary n tx (assembled n ic tx m sdb w)"
  by (simp add: carries_summary_def assembled_def NewDualEvent_def)


lemma loop_filter:
  "handleBlock_loop n ic a (addressed_to a txs) w = handleBlock_loop n ic a txs w"
proof (induction txs arbitrary: w)
  case Nil
  show ?case by (simp add: addressed_to_def)
next
  case (Cons tx txs)
  show ?case
  proof (cases "tx_To tx = Some a")
    case False
    with Cons show ?thesis by (simp add: addressed_to_def loop_skip del: handleBlock_loop.simps)
  next
    case True
    have f: "addressed_to a (tx # txs) = tx # addressed_to a txs"
      using True by (simp add: addressed_to_def)
    show ?thesis
      unfolding f using True Cons.IH
      by (simp add: Let_def split: prod.splits sum.splits option.splits)
  qed
qed

lemma loop_prefix:
  "list_all2 (carries_summary n)
     (take (length (eventPoolCalls (snd (snd (handleBlock_loop n ic a txs w)))))
        (addressed_to a txs))
     (eventPoolCalls (snd (snd (handleBlock_loop n ic a txs w))))"
proof (induction txs arbitrary: w)
  case Nil
  show ?case by (simp add: addressed_to_def)
next
  case (Cons tx txs)
  show ?case
  proof (cases "tx_To tx = Some a")
    case False
    with Cons show ?thesis by (simp add: addressed_to_def loop_skip del: handleBlock_loop.simps)
  next
    case True
    have f: "addressed_to a (tx # txs) = tx # addressed_to a txs"
      using True by (simp add: addressed_to_def)
    show ?thesis
    proof (cases "InputMethodName (ethSmc n) (tx_Data tx)")
      case (Inl e)
      show ?thesis by (simp add: loop_decode_fail[OF True Inl] del: handleBlock_loop.simps)
    next
      case (Inr m)
      show ?thesis
      proof (cases "dualChain_State n w")
        case (Inl e)
        show ?thesis by (simp add: loop_state_fail[OF True Inr Inl] del: handleBlock_loop.simps)
      next
        case sd: (Inr sdb)
        obtain r w' where p: "eventPool_AddEvent n (assembled n ic tx m sdb w) w = (r, w')"
          by (cases "eventPool_AddEvent n (assembled n ic tx m sdb w) w")
        show ?thesis
        proof (cases r)
          case (Some e)
          show ?thesis
            using assembled_carries[OF Inr, of ic sdb w]
            by (simp add: loop_rejected[OF True Inr sd p[unfolded Some]] f
                del: handleBlock_loop.simps)
        next
          case None
          show ?thesis
            using assembled_carries[OF Inr, of ic sdb w] Cons.IH[of w']
            by (simp add: loop_accepted[OF True Inr sd p[unfolded None]] f
                eventPoolCalls_append del: handleBlock_loop.simps)
        qed
      qed
    qed
  qed
qed

lemma loop_clean:
  assumes "fst (handleBlock_loop n ic a txs w) = Returns ()"
    and "errorLogs (snd (snd (handleBlock_loop n ic a txs w))) = []"
  shows "length (eventPoolCalls (snd (snd (handleBlock_loop n ic a txs w)))) =
           length (addressed_to a txs)"
  using assms
proof (induction txs arbitrary: w)
  case Nil
  show ?case by (simp add: addressed_to_def)
next
  case (Cons tx txs)
  show ?case
  proof (cases "tx_To tx = Some a")
    case False
    with Cons show ?thesis by (simp add: addressed_to_def loop_skip del: handleBlock_loop.simps)
  next
    case True
    have f: "addressed_to a (tx # txs) = tx # addressed_to a txs"
      using True by (simp add: addressed_to_def)
    show ?thesis
    proof (cases "InputMethodName (ethSmc n) (tx_Data tx)")
      case (Inl e)
      with Cons.prems(1) show ?thesis
        by (simp add: loop_decode_fail[OF True Inl] del: handleBlock_loop.simps)
    next
      case (Inr m)
      show ?thesis
      proof (cases "dualChain_State n w")
        case (Inl e)
        with Cons.prems(2) show ?thesis
          by (simp add: loop_state_fail[OF True Inr Inl] del: handleBlock_loop.simps)
      next
        case sd: (Inr sdb)
        obtain r w' where p: "eventPool_AddEvent n (assembled n ic tx m sdb w) w = (r, w')"
          by (cases "eventPool_AddEvent n (assembled n ic tx m sdb w) w")
        show ?thesis
        proof (cases r)
          case (Some e)
          with Cons.prems(2) show ?thesis
            by (simp add: loop_rejected[OF True Inr sd p[unfolded Some]]
                del: handleBlock_loop.simps)
        next
          case None
          note acc = loop_accepted[OF True Inr sd p[unfolded None], of txs]
          from Cons.prems have "fst (handleBlock_loop n ic a txs w') = Returns ()"
            and "errorLogs (snd (snd (handleBlock_loop n ic a txs w'))) = []"
            by (simp_all add: acc errorLogs_append del: handleBlock_loop.simps)
          from Cons.IH[OF this] show ?thesis
            by (simp add: acc f eventPoolCalls_append del: handleBlock_loop.simps)
        qed
      qed
    qed
  qed
qed

section \<open>Extraction of summaries\<close>

text \<open>
  Claim C3, as the code has it. With the adapter registered, for every block \<open>B\<close> and
  bridge contract address \<open>a\<close>:
  \<^item> transactions not addressed to \<open>a\<close> have no effect at all: \<open>handleBlock\<close> on \<open>B\<close> returns the
    same outcome, world and trace as on \<open>B\<close> restricted to the transactions addressed to \<open>a\<close>
    (log records being compared by level and message);
  \<^item> the events handed to the Event Pool carry, in block order, the summaries (decoded
    method name and native value) of an initial segment of the transactions addressed
    to \<open>a\<close>, one each;
  \<^item> if this scan of \<open>B\<close> returns and has logged no error (no decode failure, no failed
    state read and no refused event in this scan), there is exactly one summary per
    transaction addressed to \<open>a\<close>.
  The claim as stated, for every block, fails: a transaction whose input does not decode
  makes \<open>handleBlock\<close> panic, and a failed state read or a refused event ends the scan.
\<close>

theorem C3_extractor:
  assumes reg: "internalChain n = Some ic"
  shows "handleBlock n
           (Some (B\<lparr>blk_Transactions :=
                      addressed_to (ContractAddress (config n)) (blk_Transactions B)\<rparr>)) w
           = handleBlock n (Some B) w
         \<and> list_all2 (carries_summary n)
             (take (length (eventPoolCalls (snd (snd (handleBlock n (Some B) w)))))
                (addressed_to (ContractAddress (config n)) (blk_Transactions B)))
             (eventPoolCalls (snd (snd (handleBlock n (Some B) w))))
         \<and> (fst (handleBlock n (Some B) w) = Returns () \<and>
             errorLogs (snd (snd (handleBlock n (Some B) w))) = [] \<longrightarrow>
             list_all2 (carries_summary n)
               (addressed_to (ContractAddress (config n)) (blk_Transactions B))
               (eventPoolCalls (snd (snd (handleBlock n (Some B) w)))))"
proof -
  let ?a = "ContractAddress (config n)"
  let ?txs = "blk_Transactions B"
  have tr: "eventPoolCalls (snd (snd (handleBlock n (Some B) w))) =
            eventPoolCalls (snd (snd (handleBlock_loop n ic ?a ?txs w)))"
    and out: "fst (handleBlock n (Some B) w) = fst (handleBlock_loop n ic ?a ?txs w)"
    and el: "errorLogs (snd (snd (handleBlock n (Some B) w))) =
             errorLogs (snd (snd (handleBlock_loop n ic ?a ?txs w)))"
    using reg by (simp_all add: handleBlock_def Let_def split: prod.splits)
  have one: "handleBlock n (Some (B\<lparr>blk_Transactions := addressed_to ?a ?txs\<rparr>)) w
               = handleBlock n (Some B) w"
    using reg by (simp add: handleBlock_def Let_def loop_filter)
  have two: "list_all2 (carries_summary n)
       (take (length (eventPoolCalls (snd (snd (handleBlock n (Some B) w)))))
          (addressed_to ?a ?txs))
       (eventPoolCalls (snd (snd (handleBlock n (Some B) w))))"
    unfolding tr by (rule loop_prefix)
  have three: "list_all2 (carries_summary n) (addressed_to ?a ?txs)
         (eventPoolCalls (snd (snd (handleBlock n (Some B) w))))"
    if h: "fst (handleBlock n (Some B) w) = Returns () \<and>
           errorLogs (snd (snd (handleBlock n (Some B) w))) = []"
  proof -
    from h have "length (eventPoolCalls (snd (snd (handleBlock_loop n ic ?a ?txs w)))) =
           length (addressed_to ?a ?txs)"
      unfolding out el by (intro loop_clean) simp_all
    with two show ?thesis unfolding tr by simp
  qed
  from one two three show ?thesis by blast
qed

theorem C3_extractor_witness:
  "list_all2 (carries_summary sample_eth)
     [sample_tx 1 [1] 1000 11, sample_tx 1 [2] 20 13]
     (eventPoolCalls (snd (snd (handleBlock sample_eth (Some sample_block) ())))) \<and>
   list_all2 (carries_summary sample_refusing)
     [sample_tx 1 [2] 20 13, sample_tx 1 [3] 30 14]
     (eventPoolCalls (snd (snd (handleBlock sample_refusing
        (Some \<lparr>blk_Header = 2,
               blk_Transactions = [sample_tx 1 [2] 20 13, sample_tx 7 [1] 5 15,
                                   sample_tx 1 [3] 30 14]\<rparr>) ()))))"
proof -
  let ?B2 = "\<lparr>blk_Header = 2,
               blk_Transactions = [sample_tx 1 [2] 20 13, sample_tx 7 [1] 5 15,
                                   sample_tx 1 [3] 30 14]\<rparr>"
  have reg: "internalChain sample_eth = Some (\<lambda>ev w. None)"
    by (simp add: sample_eth_def)
  have reg2: "internalChain sample_refusing = Some (\<lambda>ev w. None)"
    by (simp add: sample_refusing_def sample_eth_def)
  have a: "ContractAddress (config sample_eth) = 1"
    by (simp add: sample_eth_def)
  have a2: "ContractAddress (config sample_refusing) = 1"
    by (simp add: sample_refusing_def sample_eth_def)
  have h: "fst (handleBlock sample_eth (Some sample_block) ()) = Returns () \<and>
           errorLogs (snd (snd (handleBlock sample_eth (Some sample_block) ()))) = []"
    by (simp add: handleBlock_def extractEthTxSummary_def sample_block_def sample_eth_def
        sample_smc_def sample_tx_def Let_def)
  have h2: "fst (handleBlock sample_refusing (Some ?B2) ()) = Returns () \<and>
           errorLogs (snd (snd (handleBlock sample_refusing (Some ?B2) ()))) = []"
    by (simp add: handleBlock_def extractEthTxSummary_def sample_refusing_def sample_eth_def
        sample_smc_def sample_tx_def sample_state_def NewDualEvent_def Let_def)
  have f: "addressed_to 1 (blk_Transactions sample_block) =
             [sample_tx 1 [1] 1000 11, sample_tx 1 [2] 20 13]"
    by (simp add: addressed_to_def sample_block_def sample_tx_def)
  have f2: "addressed_to 1 (blk_Transactions ?B2) =
             [sample_tx 1 [2] 20 13, sample_tx 1 [3] 30 14]"
    by (simp add: addressed_to_def sample_tx_def)
  from C3_extractor[OF reg, of sample_block "()"] h
  have 1: "list_all2 (carries_summary sample_eth)
     [sample_tx 1 [1] 1000 11, sample_tx 1 [2] 20 13]
     (eventPoolCalls (snd (snd (handleBlock sample_eth (Some sample_block) ()))))"
    unfolding a f by blast
  from C3_extractor[OF reg2, of ?B2 "()"] h2
  have 2: "list_all2 (carries_summary sample_refusing)
     [sample_tx 1 [2] 20 13, sample_tx 1 [3] 30 14]
     (eventPoolCalls (snd (snd (handleBlock sample_refusing (Some ?B2) ()))))"
    unfolding a2 f2 by blast
  from 1 2 show ?thesis by simp
qed

text \<open>
  Two transactions to the bridge contract, the first with an input that does not decode:
  \<open>handleBlock\<close> panics and no summary is produced.
\<close>

theorem C3_decode_failure_counterexample:
  "addressed_to 1 [sample_tx 1 [] 1000 11, sample_tx 1 [2] 20 13] =
     [sample_tx 1 [] 1000 11, sample_tx 1 [2] 20 13] \<and>
   handleBlock sample_eth
     (Some \<lparr>blk_Header = 1,
            blk_Transactions = [sample_tx 1 [] 1000 11, sample_tx 1 [2] 20 13]\<rparr>) () =
     (Panics ''Not yet implemented!'', (),
      [LogInfo ''handleBlock...'',
       LogInfo ''New Eth's tx detected on smart contract'',
       LogError ''Error when unpack Eth smc input'',
       LogError ''Error when extracting Eth's tx summary.''])"
  by (simp add: addressed_to_def handleBlock_def extractEthTxSummary_def sample_eth_def
      sample_smc_def sample_tx_def Let_def)

section \<open>An event refused by the Event Pool\<close>

text \<open>
  Claim C4, as the code has it. When the loop reaches a transaction addressed to the
  bridge contract (with any transactions \<open>rest\<close> after it, in any world \<open>w\<close>) and the Event
  Pool refuses the event assembled for it, the rejection is logged, the event has been
  handed to the pool exactly once (no retry), and \<open>handleBlock\<close> returns at once: the result
  is the same as if the block ended at this transaction, so the remaining transactions
  of the block are not processed. The claim as stated says the remaining transactions
  are unaffected; the \<open>return\<close> in the error branch ends the whole scan.
\<close>

theorem C4_pool_rejection:
  assumes "tx_To tx = Some a"
    and "InputMethodName (ethSmc n) (tx_Data tx) = Inr m"
    and "dualChain_State n w = Inr sdb"
    and "eventPool_AddEvent n (assembled n ic tx m sdb w) w = (Some e, w')"
  shows "handleBlock_loop n ic a (tx # rest) w =
           (Returns (), w',
            [LogInfo ''New Eth's tx detected on smart contract'',
             LogInfo ''Create DualEvent for Eth's Tx'',
             EventPoolAddEvent (assembled n ic tx m sdb w),
             LogError ''Fail to add dual's event''])
         \<and> eventPoolCalls (snd (snd (handleBlock_loop n ic a (tx # rest) w))) =
             [assembled n ic tx m sdb w]
         \<and> handleBlock_loop n ic a (tx # rest) w = handleBlock_loop n ic a [tx] w"
  using loop_rejected[OF assms, of rest] loop_rejected[OF assms, of "[]"]
  by (simp del: handleBlock_loop.simps)

theorem C4_pool_rejection_witness:
  "handleBlock_loop sample_refusing (\<lambda>ev w. None) 1
      [sample_tx 1 [1] 1000 11, sample_tx 1 [2] 20 13] () =
     (Returns (), (),
      [LogInfo ''New Eth's tx detected on smart contract'',
       LogInfo ''Create DualEvent for Eth's Tx'',
       EventPoolAddEvent
         \<lparr>Nonce = 3,
          TriggeredEvent = \<lparr>ed_TxHash = 11, ed_TxSource = ETHEREUM, ed_FromExternal = True,
                            ed_Data = \<lparr>TxMethod = ''deposit'', TxValue = 1000\<rparr>\<rparr>,
          PendingTxMetadata = None\<rparr>,
       LogError ''Fail to add dual's event''])"
proof -
  have 1: "tx_To (sample_tx 1 [1] 1000 11) = Some 1" by (simp add: sample_tx_def)
  have 2: "InputMethodName (ethSmc sample_refusing) (tx_Data (sample_tx 1 [1] 1000 11))
             = Inr ''deposit''"
    by (simp add: sample_refusing_def sample_eth_def sample_smc_def sample_tx_def)
  have 3: "dualChain_State sample_refusing () = Inr (sample_state 3)"
    by (simp add: sample_refusing_def sample_eth_def)
  have 4: "eventPool_AddEvent sample_refusing
             (assembled sample_refusing (\<lambda>ev w. None) (sample_tx 1 [1] 1000 11) ''deposit''
                (sample_state 3) ()) () = (Some (ExternalError ''duplicate nonce''), ())"
    by (simp add: sample_refusing_def sample_eth_def assembled_def NewDualEvent_def sample_tx_def)
  from C4_pool_rejection[OF 1 2 3 4, of "[sample_tx 1 [2] 20 13]"] show ?thesis
    by (simp add: assembled_def NewDualEvent_def sample_tx_def sample_state_def
        sample_refusing_def sample_eth_def del: handleBlock_loop.simps)
qed

text \<open>
  The pool refuses the event of the first transaction and would accept that of the second:
  in the block of both, only the first event reaches the pool; in a block of the second
  alone, its event does.
\<close>

theorem C4_rest_of_block_counterexample:
  "map (\<lambda>ev. TxValue (ed_Data (TriggeredEvent ev)))
     (eventPoolCalls (snd (snd (handleBlock sample_refusing
        (Some \<lparr>blk_Header = 1,
               blk_Transactions = [sample_tx 1 [1] 1000 11, sample_tx 1 [2] 20 13]\<rparr>) ()))))
     = [1000] \<and>
   map (\<lambda>ev. TxValue (ed_Data (TriggeredEvent ev)))
     (eventPoolCalls (snd (snd (handleBlock sample_refusing
        (Some \<lparr>blk_Header = 1, blk_Transactions = [sample_tx 1 [2] 20 13]\<rparr>) ()))))
     = [20]"
  by (simp add: handleBlock_def extractEthTxSummary_def sample_refusing_def sample_eth_def
      sample_smc_def sample_tx_def sample_state_def NewDualEvent_def Let_def)

section \<open>The hand-off buffer of the head tracker\<close>

lemma run_append:
  "syncHead_run ln (s @ s') t = syncHead_run ln s' (syncHead_run ln s t)"
  by (simp add: syncHead_run_def)

lemma notify_full:
  "blockCh t \<noteq> [] \<Longrightarrow> syncHead_step ln t (Notify head) = t"
  by (cases "blockCh t") (simp_all add: listener_on_head_def chan_send_def)

lemma notifies_full:
  "blockCh t \<noteq> [] \<Longrightarrow> syncHead_run ln (map Notify heads) t = t"
  by (induction heads) (simp_all add: syncHead_run_def notify_full del: syncHead_step.simps)

lemma step_capacity:
  "length (blockCh t) \<le> 1 \<Longrightarrow> length (blockCh (syncHead_step ln t e)) \<le> 1"
  by (cases e; cases "blockCh t")
     (auto simp add: listener_on_head_def chan_send_def chan_recv_def)

lemma run_capacity:
  "length (blockCh t) \<le> 1 \<Longrightarrow> length (blockCh (syncHead_run ln s t)) \<le> 1"
proof (induction s arbitrary: t)
  case Nil
  then show ?case by (simp add: syncHead_run_def)
next
  case (Cons e s)
  from Cons.IH[OF step_capacity[OF Cons.prems]] show ?case
    by (simp add: syncHead_run_def)
qed

lemma drain_full:
  "blockCh t = [b] \<Longrightarrow>
     syncHead_step ln t Drain =
       t\<lparr>blockCh := [], dispatched := (if ln then dispatched t else dispatched t @ [b])\<rparr>"
  by (simp add: chan_recv_def)

text \<open>
  Claim C5. The listener's insert into \<open>blockCh\<close> never blocks, whatever the buffer holds.
  For every schedule \<open>s\<close> of head notifications, generated blocks and drains, run from the
  empty tracker, the buffer holds at most one block; and if it holds a block \<open>b\<close> after
  \<open>s\<close>, then any further head notifications \<open>heads\<close> leave the tracker as it is (each of them
  is dropped, \<open>b\<close> stays), and the next drain takes \<open>b\<close> itself out of the buffer (and
  dispatches it, unless the node is a light node): \<open>b\<close> is never evicted or replaced by a
  newer block.
\<close>

theorem C5_head_tracker:
  "listener_on_head head ch \<noteq> None \<and>
   length (blockCh (syncHead_run ln s tracker_init)) \<le> 1 \<and>
   (\<forall>b. blockCh (syncHead_run ln s tracker_init) = [b] \<longrightarrow>
      syncHead_run ln (s @ map Notify heads) tracker_init = syncHead_run ln s tracker_init \<and>
      syncHead_run ln (s @ map Notify heads @ [Drain]) tracker_init =
        (syncHead_run ln s tracker_init)
          \<lparr>blockCh := [],
           dispatched := (if ln then dispatched (syncHead_run ln s tracker_init)
                          else dispatched (syncHead_run ln s tracker_init) @ [b])\<rparr>)"
proof (intro conjI allI impI)
  show "listener_on_head head ch \<noteq> None"
    by (simp add: listener_on_head_def split: option.splits)
  show "length (blockCh (syncHead_run ln s tracker_init)) \<le> 1"
    by (rule run_capacity) (simp add: tracker_init_def)
next
  fix b
  assume full: "blockCh (syncHead_run ln s tracker_init) = [b]"
  then have ne: "blockCh (syncHead_run ln s tracker_init) \<noteq> []" by simp
  show keep: "syncHead_run ln (s @ map Notify heads) tracker_init = syncHead_run ln s tracker_init"
    by (simp add: run_append notifies_full[OF ne])
  have "syncHead_run ln (s @ map Notify heads @ [Drain]) tracker_init =
          syncHead_step ln (syncHead_run ln (s @ map Notify heads) tracker_init) Drain"
    using run_append[of ln "s @ map Notify heads" "[Drain]" tracker_init]
    by (simp add: syncHead_run_def)
  then show "syncHead_run ln (s @ map Notify heads @ [Drain]) tracker_init =
        (syncHead_run ln s tracker_init)
          \<lparr>blockCh := [],
           dispatched := (if ln then dispatched (syncHead_run ln s tracker_init)
                          else dispatched (syncHead_run ln s tracker_init) @ [b])\<rparr>"
    unfolding keep using drain_full[OF full, of ln] by simp
qed

theorem C5_head_tracker_witness:
  "syncHead_run False
     ([Notify (sample_head (Some sample_block))] @
      map Notify [sample_head None, sample_head (Some (sample_block\<lparr>blk_Header := 2\<rparr>))] @
      [Drain]) tracker_init =
     \<lparr>blockCh = [], dispatched = [Some sample_block]\<rparr>"
proof -
  have full: "blockCh (syncHead_run False [Notify (sample_head (Some sample_block))] tracker_init)
                = [Some sample_block]"
    by (simp add: syncHead_run_def tracker_init_def listener_on_head_def chan_send_def
        sample_head_def)
  from C5_head_tracker[of _ _ False "[Notify (sample_head (Some sample_block))]"
      "[sample_head None, sample_head (Some (sample_block\<lparr>blk_Header := 2\<rparr>))]"] full
  have "syncHead_run False
     ([Notify (sample_head (Some sample_block))] @
      map Notify [sample_head None, sample_head (Some (sample_block\<lparr>blk_Header := 2\<rparr>))] @
      [Drain]) tracker_init =
     (syncHead_run False [Notify (sample_head (Some sample_block))] tracker_init)
        \<lparr>blockCh := [],
         dispatched := dispatched (syncHead_run False [Notify (sample_head (Some sample_block))]
                          tracker_init) @ [Some sample_block]\<rparr>"
    by simp
  then show ?thesis
    by (simp add: syncHead_run_def tracker_init_def listener_on_head_def chan_send_def
        sample_head_def)
qed

section \<open>A nil block\<close>

text \<open>
  Claim C6, as the code has it. When a nil block is delivered to \<open>handleBlock\<close> and the
  internal chain adapter has been registered, the call returns without panic, the world
  is unchanged, and the trace is exactly one log record: no event reaches the Event Pool
  and the block is not dereferenced. The claim as stated, for every delivery of a nil
  block, fails when no adapter is registered: the adapter check comes first and panics.
\<close>

theorem C6_nil_block:
  assumes "internalChain n = Some ic"
  shows "handleBlock n None w = (Returns (), w, [LogInfo ''handleBlock with nil block''])"
  using assms by (simp add: handleBlock_def)

theorem C6_nil_block_witness:
  "handleBlock sample_eth None () = (Returns (), (), [LogInfo ''handleBlock with nil block''])"
proof -
  have "internalChain sample_eth = Some (\<lambda>ev w. None)" by (simp add: sample_eth_def)
  from C6_nil_block[OF this] show ?thesis .
qed

text \<open>The sample node without a registered adapter panics on a nil block.\<close>

theorem C6_unregistered_counterexample:
  "handleBlock (sample_eth\<lparr>internalChain := None\<rparr>) None () =
     (Panics ''Internal chain needs not to be nil.'', (), [])"
  by (simp add: handleBlock_def)

section \<open>Response metadata\<close>

text \<open>
  Claim C7. For every event, \<open>ComputeTxMetadata\<close> calls no pool. If the Ethereum state
  read fails it returns nil. If the read succeeds and the signing nonce is not zero, it
  returns the hash of the built release transaction with the target chain \<open>ETHEREUM\<close>, and
  the transaction built is the one that the submission path \<open>submitEthReleaseTx\<close> hands to
  the Ethereum pool for the same amount in the same world. The claim leaves the event
  with no other result than nil or that pair. The code does otherwise when the read
  succeeds and the nonce is zero: the build fails, and \<open>ComputeTxMetadata\<close>, which has no
  nil check (its sibling \<open>submitEthReleaseTx\<close> has one), dereferences the nil
  transaction and panics, returning neither nil nor a pair.
\<close>

theorem C7_metadata:
  "submissions (snd (ComputeTxMetadata n ev w)) = [] \<and>
   (\<forall>e. ethBlockChain_State n w = Inl e \<longrightarrow> fst (ComputeTxMetadata n ev w) = Returns None) \<and>
   (\<forall>sdb. ethBlockChain_State n w = Inr sdb \<and> GetNonce sdb (EthAccountSign n) \<noteq> 0 \<longrightarrow>
      fst (ComputeTxMetadata n ev w) =
        Returns (Some \<lparr>md_TxHash =
                         tx_Hash (CreateEthReleaseTx (ethSmc n) (smcContractAddr n)
                            (TxValue (ed_Data ev)) (receiveAddr n)
                            (GetNonce sdb (EthAccountSign n))),
                       md_Target = ETHEREUM\<rparr>) \<and>
      submissions (snd (snd (submitEthReleaseTx n (TxValue (ed_Data ev)) w))) =
        [EthTxPoolAddLocal
           (Some (CreateEthReleaseTx (ethSmc n) (smcContractAddr n) (TxValue (ed_Data ev))
              (receiveAddr n) (GetNonce sdb (EthAccountSign n))))]) \<and>
   (\<forall>sdb. ethBlockChain_State n w = Inr sdb \<and> GetNonce sdb (EthAccountSign n) = 0 \<longrightarrow>
      ComputeTxMetadata n ev w =
        (Panics ''invalid memory address or nil pointer dereference'',
         [LogError ''Eth state return 0 for nonce of contract address'']))"
proof (intro conjI allI impI)
  show "submissions (snd (ComputeTxMetadata n ev w)) = []"
    by (simp add: ComputeTxMetadata_def CreateEthReleaseAmountTx_def Let_def
        split: sum.splits prod.splits option.splits)
next
  fix e assume "ethBlockChain_State n w = Inl e"
  then show "fst (ComputeTxMetadata n ev w) = Returns None"
    by (simp add: ComputeTxMetadata_def)
next
  fix sdb
  assume h: "ethBlockChain_State n w = Inr sdb \<and> GetNonce sdb (EthAccountSign n) \<noteq> 0"
  then show "fst (ComputeTxMetadata n ev w) =
        Returns (Some \<lparr>md_TxHash =
                         tx_Hash (CreateEthReleaseTx (ethSmc n) (smcContractAddr n)
                            (TxValue (ed_Data ev)) (receiveAddr n)
                            (GetNonce sdb (EthAccountSign n))),
                       md_Target = ETHEREUM\<rparr>)"
    by (simp add: ComputeTxMetadata_def build_nonzero)
  from h show "submissions (snd (snd (submitEthReleaseTx n (TxValue (ed_Data ev)) w))) =
        [EthTxPoolAddLocal
           (Some (CreateEthReleaseTx (ethSmc n) (smcContractAddr n) (TxValue (ed_Data ev))
              (receiveAddr n) (GetNonce sdb (EthAccountSign n))))]"
    using submit_nonzero[of n w sdb "TxValue (ed_Data ev)"] by simp
next
  fix sdb
  assume "ethBlockChain_State n w = Inr sdb \<and> GetNonce sdb (EthAccountSign n) = 0"
  then show "ComputeTxMetadata n ev w =
        (Panics ''invalid memory address or nil pointer dereference'',
         [LogError ''Eth state return 0 for nonce of contract address''])"
    by (simp add: ComputeTxMetadata_def build_zero)
qed

theorem C7_metadata_witness:
  "ComputeTxMetadata (sample_eth\<lparr>ethBlockChain_State := (\<lambda>w. Inr (sample_state 0))\<rparr>)
      sample_event () =
     (Panics ''invalid memory address or nil pointer dereference'',
      [LogError ''Eth state return 0 for nonce of contract address'']) \<and>
   fst (ComputeTxMetadata sample_eth sample_event ()) =
     Returns (Some \<lparr>md_TxHash = 7, md_Target = ETHEREUM\<rparr>) \<and>
   submissions (snd (snd (submitEthReleaseTx sample_eth 1000 ()))) =
     [EthTxPoolAddLocal (Some \<lparr>tx_To = Some 2, tx_Data = [], tx_Value = 1000, tx_Hash = 7\<rparr>)] \<and>
   fst (ComputeTxMetadata
          (sample_eth\<lparr>ethBlockChain_State := (\<lambda>w. Inl (ExternalError ''state unavailable''))\<rparr>)
          sample_event ()) = Returns None"
proof -
  have h: "ethBlockChain_State sample_eth () = Inr (sample_state 7) \<and>
           GetNonce (sample_state 7) (EthAccountSign sample_eth) \<noteq> 0"
    by (simp add: sample_eth_def sample_state_def)
  have g: "ethBlockChain_State
             (sample_eth\<lparr>ethBlockChain_State := (\<lambda>w. Inl (ExternalError ''state unavailable''))\<rparr>)
             () = Inl (ExternalError ''state unavailable'')"
    by simp
  have z: "ethBlockChain_State (sample_eth\<lparr>ethBlockChain_State := (\<lambda>w. Inr (sample_state 0))\<rparr>) ()
             = Inr (sample_state 0) \<and>
           GetNonce (sample_state 0)
             (EthAccountSign (sample_eth\<lparr>ethBlockChain_State := (\<lambda>w. Inr (sample_state 0))\<rparr>)) = 0"
    by (simp add: sample_state_def)
  from C7_metadata[of "sample_eth\<lparr>ethBlockChain_State := (\<lambda>w. Inr (sample_state 0))\<rparr>"
      sample_event "()"] z
  have 0: "ComputeTxMetadata (sample_eth\<lparr>ethBlockChain_State := (\<lambda>w. Inr (sample_state 0))\<rparr>)
      sample_event () =
     (Panics ''invalid memory address or nil pointer dereference'',
      [LogError ''Eth state return 0 for nonce of contract address''])"
    by blast
  from C7_metadata[of sample_eth sample_event "()"] h
    C7_metadata[of "sample_eth\<lparr>ethBlockChain_State :=
        (\<lambda>w. Inl (ExternalError ''state unavailable''))\<rparr>" sample_event "()"] g
  have "fst (ComputeTxMetadata sample_eth sample_event ()) =
     Returns (Some \<lparr>md_TxHash = 7, md_Target = ETHEREUM\<rparr>) \<and>
   submissions (snd (snd (submitEthReleaseTx sample_eth 1000 ()))) =
     [EthTxPoolAddLocal (Some \<lparr>tx_To = Some 2, tx_Data = [], tx_Value = 1000, tx_Hash = 7\<rparr>)] \<and>
   fst (ComputeTxMetadata
          (sample_eth\<lparr>ethBlockChain_State := (\<lambda>w. Inl (ExternalError ''state unavailable''))\<rparr>)
          sample_event ()) = Returns None"
    by (simp add: sample_eth_def sample_state_def sample_smc_def sample_event_def)
  with 0 show ?thesis by simp
qed

section \<open>The result of SubmitTx\<close>

text \<open>\<open>SubmitTx\<close> returns an error exactly when the Kardia state read fails, and that error.\<close>

lemma SubmitTx_error_iff:
  "fst (SubmitTx n ev w) = Returns (Some e) \<longleftrightarrow> kardiaChain_State n w = Inl e"
  by (auto simp add: SubmitTx_def Let_def
      split: sum.splits prod.splits option.splits outcome.splits)

text \<open>
  Claim C8. The claim says that a failed build of the release transaction is only logged
  and that \<open>SubmitTx\<close> still returns nil. The code does otherwise: after the failed build
  (zero nonce) \<open>submitEthReleaseTx\<close> hands the nil transaction to the Ethereum pool, and
  when the pool returns no error it dereferences the nil transaction for the success log:
  \<open>SubmitTx\<close> panics instead of returning nil, and the debit is not attempted.
\<close>

theorem C8_build_failure_panics:
  assumes "kardiaChain_State n w = Inr sdb"
    and "fst (callKardiaMasterGetEthToSend n (MockSmartContractCallSenderAccount n) sdb w) = Some v"
    and "v \<noteq> 0"
    and "ethBlockChain_State n w = Inr esdb"
    and "GetNonce esdb (EthAccountSign n) = 0"
    and "fst (ethTxPool_AddLocal n None w) = None"
  shows "fst (SubmitTx n ev w) = Panics ''invalid memory address or nil pointer dereference''"
  using assms(1-3) submit_zero(2)[OF assms(4,5,6), of v]
  by (auto simp add: SubmitTx_def Let_def split: prod.splits option.splits outcome.splits)

theorem C8_build_failure_panics_witness:
  "fst (SubmitTx (sample_eth\<lparr>ethBlockChain_State := (\<lambda>w. Inr (sample_state 0))\<rparr>)
          sample_event ()) = Panics ''invalid memory address or nil pointer dereference''"
proof -
  let ?n = "sample_eth\<lparr>ethBlockChain_State := (\<lambda>w. Inr (sample_state 0))\<rparr>"
  have 1: "kardiaChain_State ?n () = Inr (sample_state 5)" by (simp add: sample_eth_def)
  have 2: "fst (callKardiaMasterGetEthToSend ?n (MockSmartContractCallSenderAccount ?n)
                 (sample_state 5) ()) = Some 500"
    by (simp add: callKardiaMasterGetEthToSend_def sample_eth_def SetBytes_def)
  have 3: "(500::int) \<noteq> 0" by simp
  have 4: "ethBlockChain_State ?n () = Inr (sample_state 0)" by simp
  have 5: "GetNonce (sample_state 0) (EthAccountSign ?n) = 0" by (simp add: sample_state_def)
  have 6: "fst (ethTxPool_AddLocal ?n None ()) = None" by (simp add: sample_eth_def)
  from C8_build_failure_panics[OF 1 2 3 4 5 6] show ?thesis .
qed

section \<open>A failed read of the pending amount\<close>

text \<open>
  Claim C9. In a poll cycle whose Kardia state read succeeds, if packing the view call
  fails or the static call fails, the pending-amount read returns 0, and \<open>SubmitTx\<close>
  returns nil, leaves the world unchanged and calls no pool. A genuine zero (the static
  call returns bytes that decode to 0) gives the same three results, so the two cannot be
  told apart by what \<open>SubmitTx\<close> returns or submits.
\<close>

theorem C9_read_failure_is_zero:
  assumes "kardiaChain_State n w = Inr sdb"
  shows "((\<exists>e. smcABI_Pack n ''getEthToSend'' = Inl e) \<or>
          (\<exists>p e. smcABI_Pack n ''getEthToSend'' = Inr p \<and>
                 CallStaticKardiaMasterSmc n (MockSmartContractCallSenderAccount n)
                   (smcAddress n) w p sdb = Inl e) \<longrightarrow>
            fst (callKardiaMasterGetEthToSend n (MockSmartContractCallSenderAccount n) sdb w)
              = Some 0 \<and>
            fst (SubmitTx n ev w) = Returns None \<and> fst (snd (SubmitTx n ev w)) = w \<and>
            submissions (snd (snd (SubmitTx n ev w))) = []) \<and>
         ((\<exists>p ret. smcABI_Pack n ''getEthToSend'' = Inr p \<and>
                 CallStaticKardiaMasterSmc n (MockSmartContractCallSenderAccount n)
                   (smcAddress n) w p sdb = Inr ret \<and> SetBytes ret = 0) \<longrightarrow>
            fst (callKardiaMasterGetEthToSend n (MockSmartContractCallSenderAccount n) sdb w)
              = Some 0 \<and>
            fst (SubmitTx n ev w) = Returns None \<and> fst (snd (SubmitTx n ev w)) = w \<and>
            submissions (snd (snd (SubmitTx n ev w))) = [])"
proof -
  have z: "fst (SubmitTx n ev w) = Returns None \<and> fst (snd (SubmitTx n ev w)) = w \<and>
            submissions (snd (snd (SubmitTx n ev w))) = []"
    if "fst (callKardiaMasterGetEthToSend n (MockSmartContractCallSenderAccount n) sdb w) = Some 0"
    using SubmitTx_zero[OF assms that, of ev]
      callKardia_no_submissions[of n "MockSmartContractCallSenderAccount n" sdb w]
    by simp
  have a: "fst (callKardiaMasterGetEthToSend n (MockSmartContractCallSenderAccount n) sdb w)
             = Some 0"
    if "(\<exists>e. smcABI_Pack n ''getEthToSend'' = Inl e) \<or>
          (\<exists>p e. smcABI_Pack n ''getEthToSend'' = Inr p \<and>
                 CallStaticKardiaMasterSmc n (MockSmartContractCallSenderAccount n)
                   (smcAddress n) w p sdb = Inl e)"
    using that by (auto simp add: callKardiaMasterGetEthToSend_def)
  have b: "fst (callKardiaMasterGetEthToSend n (MockSmartContractCallSenderAccount n) sdb w)
             = Some 0"
    if "\<exists>p ret. smcABI_Pack n ''getEthToSend'' = Inr p \<and>
                 CallStaticKardiaMasterSmc n (MockSmartContractCallSenderAccount n)
                   (smcAddress n) w p sdb = Inr ret \<and> SetBytes ret = 0"
    using that by (auto simp add: callKardiaMasterGetEthToSend_def)
  from z a b show ?thesis by blast
qed

theorem C9_read_failure_is_zero_witness:
  "SubmitTx (sample_eth\<lparr>smcABI_Pack := (\<lambda>m. Inl (ExternalError ''no such method''))\<rparr>)
      sample_event () =
     (Returns None, (),
      [LogError ''Fail to pack Kardia smc getEthToSend'',
       LogInfo ''Kardia smc calls getEthToSend'']) \<and>
   fst (SubmitTx (sample_eth\<lparr>CallStaticKardiaMasterSmc := (\<lambda>from to w input sdb. Inr [0, 0])\<rparr>)
      sample_event ()) = Returns None \<and>
   submissions (snd (snd (SubmitTx
      (sample_eth\<lparr>smcABI_Pack := (\<lambda>m. Inl (ExternalError ''no such method''))\<rparr>)
      sample_event ()))) = [] \<and>
   submissions (snd (snd (SubmitTx
      (sample_eth\<lparr>CallStaticKardiaMasterSmc := (\<lambda>from to w input sdb. Inr [0, 0])\<rparr>)
      sample_event ()))) = []"
proof -
  let ?n = "sample_eth\<lparr>smcABI_Pack := (\<lambda>m. Inl (ExternalError ''no such method''))\<rparr>"
  let ?z = "sample_eth\<lparr>CallStaticKardiaMasterSmc := (\<lambda>from to w input sdb. Inr [0, 0])\<rparr>"
  have k: "kardiaChain_State ?n () = Inr (sample_state 5)" by (simp add: sample_eth_def)
  have kz: "kardiaChain_State ?z () = Inr (sample_state 5)" by (simp add: sample_eth_def)
  have f: "\<exists>e. smcABI_Pack ?n ''getEthToSend'' = Inl e" by simp
  have g: "\<exists>p ret. smcABI_Pack ?z ''getEthToSend'' = Inr p \<and>
             CallStaticKardiaMasterSmc ?z (MockSmartContractCallSenderAccount ?z)
               (smcAddress ?z) () p (sample_state 5) = Inr ret \<and> SetBytes ret = 0"
    by (simp add: sample_eth_def SetBytes_def)
  have t: "snd (snd (SubmitTx ?n sample_event ())) =
      [LogError ''Fail to pack Kardia smc getEthToSend'',
       LogInfo ''Kardia smc calls getEthToSend'']"
    by (simp add: SubmitTx_def callKardiaMasterGetEthToSend_def sample_eth_def Let_def)
  from C9_read_failure_is_zero[OF k, of sample_event] f
  have 1: "fst (SubmitTx ?n sample_event ()) = Returns None \<and>
           submissions (snd (snd (SubmitTx ?n sample_event ()))) = []"
    by blast
  from C9_read_failure_is_zero[OF kz, of sample_event] g
  have 2: "fst (SubmitTx ?z sample_event ()) = Returns None \<and>
           submissions (snd (snd (SubmitTx ?z sample_event ()))) = []"
    by blast
  from 1 2 t show ?thesis by (simp add: prod_eq_iff)
qed

section \<open>An unregistered internal chain adapter\<close>

text \<open>
  Claim C10. When no internal chain adapter is registered, \<open>handleBlock\<close> panics for every
  block, nil or not, before anything is logged: the adapter check precedes the nil-block
  check.
\<close>

theorem C10_unregistered_adapter_panics:
  assumes "internalChain n = None"
  shows "handleBlock n block w = (Panics ''Internal chain needs not to be nil.'', w, [])"
  using assms by (simp add: handleBlock_def)

theorem C10_unregistered_adapter_panics_witness:
  "handleBlock (sample_eth\<lparr>internalChain := None\<rparr>) (Some sample_block) () =
     (Panics ''Internal chain needs not to be nil.'', (), []) \<and>
   handleBlock (sample_eth\<lparr>internalChain := None\<rparr>) None () =
     (Panics ''Internal chain needs not to be nil.'', (), []) \<and>
   fst (handleBlock (RegisterInternalChain (sample_eth\<lparr>internalChain := None\<rparr>) (\<lambda>ev w. None))
          None ()) = Returns ()"
proof -
  have h: "internalChain (sample_eth\<lparr>internalChain := None\<rparr>) = None" by simp
  from C10_unregistered_adapter_panics[OF h, of "Some sample_block" "()"]
    C10_unregistered_adapter_panics[OF h, of None "()"]
  show ?thesis by (simp add: handleBlock_def RegisterInternalChain_def)
qed

end
